theory Spec2Isabelle
  imports Complex_Main
begin

section \<open>The shared light state of \<open>spacelightd.py\<close>\<close>

text \<open>
  The module globals \<open>color_temp\<close>, \<open>brightness\<close>, \<open>on\<close> and \<open>is_running\<close> (lines 11 to 14).
  \<open>color_temp\<close> and \<open>brightness\<close> hold a Python int (\<open>0\<close>, \<open>127\<close>, \<open>255\<close>, \<open>1\<close>) or a Python
  float (the result of line 45 or 46). Comparison, \<open>min\<close>, \<open>max\<close> and \<open>int()\<close> see only the
  number such a value denotes, so a value is modelled as that number, a \<open>real\<close>.
\<close>

record light_globals =
  color_temp :: real
  brightness :: real
  on :: bool
  is_running :: bool

definition initial_globals :: light_globals where
  "initial_globals = \<lparr>color_temp = 0, brightness = 0, on = False, is_running = True\<rparr>"

text \<open>
  What \<open>spacenav.poll()\<close> returns: a motion event (of its fields the code reads \<open>rx\<close> and
  \<open>rz\<close>, integers of the driver), a button event, or anything else (\<open>None\<close> when no event
  is pending).
\<close>

datatype event =
    MotionEvent (rx: int) (ry: int) (rz: int)
  | ButtonEvent (button: int) (pressed: int)
  | NoEvent

text \<open>
  The lines \<open>log_message\<close> appends, by content; the time stamp is left out. The two numbers
  of \<open>LogColor\<close> and \<open>LogPreset\<close> are the color temperature and the brightness printed.
\<close>

datatype log_entry =
    LogSpacenavEstablished
  | LogSpacenavRetry
  | LogColor real real
  | LogSwitched bool
  | LogPreset real real
  | LogConnected
  | LogTimedOut
  | LogError string
  | LogStarted
  | LogStopped

text \<open>
  Python's \<open>min(a, b)\<close> and \<open>max(a, b)\<close> of two arguments keep the first argument unless the
  second is strictly smaller (strictly greater).
\<close>

definition py_min :: "real \<Rightarrow> real \<Rightarrow> real" where
  "py_min a b = (if b < a then b else a)"

definition py_max :: "real \<Rightarrow> real \<Rightarrow> real" where
  "py_max a b = (if b > a then b else a)"

text \<open>
  Lines 45 and 46 compute in double precision: \<open>event.rz / 300.0\<close> is the exact quotient
  rounded to a double, and the subtraction is the exact difference rounded to a double.
  The rounding function \<open>fl\<close> is a parameter of the model; every theorem below holds for
  each rounding function.
\<close>

definition new_color_temp :: "(real \<Rightarrow> real) \<Rightarrow> light_globals \<Rightarrow> int \<Rightarrow> real" where
  "new_color_temp fl g z = py_max 0 (py_min 255 (fl (color_temp g - fl (real_of_int z / 300))))"

definition new_brightness :: "(real \<Rightarrow> real) \<Rightarrow> light_globals \<Rightarrow> int \<Rightarrow> real" where
  "new_brightness fl g x = py_max 1 (py_min 255 (fl (brightness g - fl (real_of_int x / 300))))"

text \<open>
  One pass through the body of the polling loop of \<open>handle_spacenav_events\<close> (lines 43 to
  64) for the polled event: the globals after it and the lines logged (only when
  \<open>verbose\<close>).
\<close>

definition motion_branch ::
  "(real \<Rightarrow> real) \<Rightarrow> bool \<Rightarrow> int \<Rightarrow> int \<Rightarrow> light_globals \<Rightarrow> light_globals \<times> log_entry list" where
  "motion_branch fl verbose x z g =
     (let c = new_color_temp fl g z; b = new_brightness fl g x in
      if c \<noteq> color_temp g \<or> b \<noteq> brightness g
      then (g\<lparr>color_temp := c, brightness := b\<rparr>, if verbose then [LogColor c b] else [])
      else (g, []))"

definition toggle_branch :: "bool \<Rightarrow> int \<Rightarrow> int \<Rightarrow> light_globals \<Rightarrow> light_globals \<times> log_entry list" where
  "toggle_branch verbose b p g =
     (if b = 0 \<and> p = 1
      then (g\<lparr>on := \<not> on g\<rparr>, if verbose then [LogSwitched (\<not> on g)] else [])
      else (g, []))"

definition preset_branch :: "bool \<Rightarrow> int \<Rightarrow> int \<Rightarrow> light_globals \<Rightarrow> light_globals \<times> log_entry list" where
  "preset_branch verbose b p g =
     (if b = 1 \<and> p = 1
      then (g\<lparr>color_temp := 127, brightness := 255, on := True\<rparr>,
            if verbose then [LogPreset 127 255] else [])
      else (g, []))"

fun handle_event ::
  "(real \<Rightarrow> real) \<Rightarrow> bool \<Rightarrow> event \<Rightarrow> light_globals \<Rightarrow> light_globals \<times> log_entry list" where
  "handle_event fl verbose (MotionEvent x y z) g =
     (if on g then motion_branch fl verbose x z g else (g, []))"
| "handle_event fl verbose (ButtonEvent b p) g =
     (case toggle_branch verbose b p g of
        (g1, l1) \<Rightarrow> (case preset_branch verbose b p g1 of (g2, l2) \<Rightarrow> (g2, l1 @ l2)))"
| "handle_event fl verbose NoEvent g = (g, [])"

section \<open>The input event loop\<close>

text \<open>
  What a loop does to the world, in order: the trace of its calls. A fixture call that
  raises is in the trace too: the call was made. \<open>Connect\<close> carries the timeout that
  \<open>asyncio.wait_for\<close> is given for \<open>led.connect()\<close>, \<open>Sleep\<close> the duration slept.
\<close>

datatype action =
    Log log_entry
  | Sleep real
  | SpacenavOpen
  | NewWLED
  | Connect real
  | Master bool int
  | Segment int int int
  | Close

text \<open>
  The first loop of \<open>handle_spacenav_events\<close> (lines 33 to 40). The list gives, for each
  call of \<open>spacenav.open()\<close>, whether it succeeds (otherwise it raises \<open>ConnectionError\<close>).
  The result says whether the loop has ended; it has not when the list ran out while the
  loop was still retrying.
\<close>

fun open_loop :: "bool list \<Rightarrow> light_globals \<Rightarrow> bool \<times> action list" where
  "open_loop [] g = (\<not> is_running g, [])"
| "open_loop (ok # oks) g =
     (if \<not> is_running g then (True, [])
      else if ok then (True, [SpacenavOpen, Log LogSpacenavEstablished])
      else (case open_loop oks g of
              (r, t) \<Rightarrow> (r, [SpacenavOpen, Log LogSpacenavRetry, Sleep 1] @ t)))"

text \<open>
  The polling loop (lines 42 to 66) over the events \<open>spacenav.poll()\<close> returns, one per
  pass. Only this loop writes the globals, so they are threaded through it.
\<close>

fun poll_loop ::
  "(real \<Rightarrow> real) \<Rightarrow> bool \<Rightarrow> event list \<Rightarrow> light_globals \<Rightarrow> bool \<times> light_globals \<times> action list" where
  "poll_loop fl verbose [] g = (\<not> is_running g, g, [])"
| "poll_loop fl verbose (e # es) g =
     (if \<not> is_running g then (True, g, [])
      else (case handle_event fl verbose e g of
              (g1, l) \<Rightarrow>
                (case poll_loop fl verbose es g1 of
                   (r, g2, t) \<Rightarrow> (r, g2, map Log l @ [Sleep (1 / 100)] @ t))))"

definition handle_spacenav_events ::
  "(real \<Rightarrow> real) \<Rightarrow> bool \<Rightarrow> bool list \<Rightarrow> event list \<Rightarrow> light_globals
     \<Rightarrow> bool \<times> light_globals \<times> action list" where
  "handle_spacenav_events fl verbose oks evs g =
     (case open_loop oks g of
        (False, t) \<Rightarrow> (False, g, t)
      | (True, t) \<Rightarrow>
          (case poll_loop fl verbose evs g of (r, g1, t1) \<Rightarrow> (r, g1, t @ t1)))"

definition globals_after :: "(real \<Rightarrow> real) \<Rightarrow> bool \<Rightarrow> event list \<Rightarrow> light_globals \<Rightarrow> light_globals" where
  "globals_after fl verbose evs g = fst (snd (poll_loop fl verbose evs g))"

text \<open>The clamp of the specification: \<open>clamp(x, lo, hi)\<close>.\<close>

definition spec_clamp :: "real \<Rightarrow> real \<Rightarrow> real \<Rightarrow> real" where
  "spec_clamp x lo hi = (if x < lo then lo else if hi < x then hi else x)"

section \<open>The output sync loop\<close>

text \<open>
  What a call of the fixture client can raise: \<open>asyncio.TimeoutError\<close>, any other
  \<open>Exception\<close> with its message, or \<open>asyncio.CancelledError\<close>, which is a \<open>BaseException\<close>
  and no \<open>Exception\<close> (it is raised at an \<open>await\<close> when the task is cancelled).
\<close>

datatype exn = TimeoutError | OtherError string | CancelledError

text \<open>
  The handlers of lines 98 to 101: \<open>except asyncio.TimeoutError\<close> and
  \<open>except Exception as e\<close> log a line each; no handler matches \<open>CancelledError\<close>.
\<close>

definition caught :: "exn \<Rightarrow> bool" where
  "caught e = (case e of TimeoutError \<Rightarrow> True | OtherError m \<Rightarrow> True | CancelledError \<Rightarrow> False)"

definition handler_log :: "exn \<Rightarrow> action list" where
  "handler_log e =
     (case e of
        TimeoutError \<Rightarrow> [Log LogTimedOut]
      | OtherError m \<Rightarrow> [Log (LogError m)]
      | CancelledError \<Rightarrow> [])"

text \<open>The locals \<open>last_color_temp\<close>, \<open>last_brightness\<close>, \<open>last_on\<close> (lines 71 to 73).\<close>

record baseline =
  last_color_temp :: "real option"
  last_brightness :: "real option"
  last_on :: "bool option"

definition no_baseline :: baseline where
  "no_baseline = \<lparr>last_color_temp = None, last_brightness = None, last_on = None\<rparr>"

definition baseline_of :: "light_globals \<Rightarrow> baseline" where
  "baseline_of g =
     \<lparr>last_color_temp = Some (color_temp g), last_brightness = Some (brightness g),
      last_on = Some (on g)\<rparr>"

text \<open>
  One pass of the inner loop (lines 86 to 97) meets the world five times. The loop guard,
  the comparison of line 88 and the arguments of \<open>led.master\<close> read the globals with no
  \<open>await\<close> in between (\<open>at_check\<close>); \<open>await led.master(...)\<close> suspends the coroutine, so the
  input loop may run before the arguments of \<open>led.segment\<close> are read (\<open>at_segment\<close>), and
  again during \<open>await led.segment(...)\<close>, before lines 93 to 95 read the globals
  (\<open>at_record\<close>). Each of the two calls returns or raises.
\<close>

record cycle_env =
  at_check :: light_globals
  master_raises :: "exn option"
  at_segment :: light_globals
  segment_raises :: "exn option"
  at_record :: light_globals

text \<open>Line 88; a number or a truth value is never equal to \<open>None\<close>.\<close>

definition differs :: "light_globals \<Rightarrow> baseline \<Rightarrow> bool" where
  "differs g bl \<longleftrightarrow>
     Some (color_temp g) \<noteq> last_color_temp bl \<or> Some (brightness g) \<noteq> last_brightness bl
     \<or> Some (on g) \<noteq> last_on bl"

text \<open>Python's \<open>int(x)\<close> of a number: truncation towards zero.\<close>

definition py_int :: "real \<Rightarrow> int" where
  "py_int x = (if 0 \<le> x then \<lfloor>x\<rfloor> else \<lceil>x\<rceil>)"

definition master_call :: "light_globals \<Rightarrow> action" where
  "master_call g = Master (on g) 255"

definition segment_call :: "light_globals \<Rightarrow> action" where
  "segment_call g = Segment 0 (py_int (brightness g)) (py_int (color_temp g))"

text \<open>Lines 88 to 95: the exception raised or the baseline after the pass, and the calls made.\<close>

definition sync_cycle :: "cycle_env \<Rightarrow> baseline \<Rightarrow> (exn + baseline) \<times> action list" where
  "sync_cycle env bl =
     (if differs (at_check env) bl then
        (case master_raises env of
           Some e \<Rightarrow> (Inl e, [master_call (at_check env)])
         | None \<Rightarrow>
             (case segment_raises env of
                Some e \<Rightarrow> (Inl e, [master_call (at_check env), segment_call (at_segment env)])
              | None \<Rightarrow>
                  (Inr (baseline_of (at_record env)),
                   [master_call (at_check env), segment_call (at_segment env)])))
      else (Inr bl, []))"

text \<open>
  How a loop or a \<open>try\<close> statement stands when the model stops following it: it has ended
  normally, it has ended by an exception, or the list of what the world does was used up
  while it was still running.
\<close>

datatype ending = Ended | Raised exn | Running

text \<open>The inner loop (lines 86 to 97), one \<open>cycle_env\<close> per pass.\<close>

fun inner_loop :: "cycle_env list \<Rightarrow> baseline \<Rightarrow> ending \<times> baseline \<times> action list" where
  "inner_loop [] bl = (Running, bl, [])"
| "inner_loop (env # envs) bl =
     (if \<not> is_running (at_check env) then (Ended, bl, [])
      else (case sync_cycle env bl of
              (Inl e, t) \<Rightarrow> (Raised e, bl, t)
            | (Inr bl1, t) \<Rightarrow>
                (case inner_loop envs bl1 of
                   (r, bl2, t1) \<Rightarrow> (r, bl2, t @ [Sleep (1 / 100)] @ t1))))"

text \<open>
  What \<open>await asyncio.wait_for(led.connect(), timeout=5)\<close> does: it returns, with
  \<open>led.connected\<close> as given, or it raises (\<open>TimeoutError\<close> after 5 seconds, or what
  \<open>connect\<close> raised).
\<close>

datatype connect_result = Returns bool | ConnectRaises exn

text \<open>
  The world of one pass of the outer loop (lines 76 to 107): the globals at the guard of
  line 76, \<open>led.connected\<close> at line 78 should \<open>led\<close> not be \<open>None\<close> there, whether the
  constructor \<open>WLED(ip_address)\<close> raises, the connection attempt, the passes of the inner
  loop, and whether \<open>led.close()\<close> raises.
\<close>

record attempt_env =
  at_top :: light_globals
  still_connected :: bool
  new_raises :: "exn option"
  connecting :: connect_result
  cycles :: "cycle_env list"
  close_raises :: "exn option"

text \<open>
  Lines 81 to 84: when \<open>led.connected\<close> holds after \<open>connect\<close> has returned, the line logged
  (only when \<open>verbose\<close>) and the pause before the first command.
\<close>

definition settle :: "bool \<Rightarrow> bool \<Rightarrow> action list" where
  "settle verbose c =
     (if c then (if verbose then [Log LogConnected] else []) @ [Sleep (1 / 2)] else [])"

text \<open>
  The body of the \<open>try\<close> (lines 78 to 97). \<open>led\<close> says whether the local \<open>led\<close> holds a
  client (is not \<open>None\<close>).
\<close>

definition try_body ::
  "bool \<Rightarrow> attempt_env \<Rightarrow> bool \<Rightarrow> baseline \<Rightarrow> ending \<times> bool \<times> baseline \<times> action list" where
  "try_body verbose env led bl =
     (if \<not> led \<or> \<not> still_connected env then
        (case new_raises env of
           Some e \<Rightarrow> (Raised e, led, bl, [NewWLED])
         | None \<Rightarrow>
             (case connecting env of
                ConnectRaises e \<Rightarrow> (Raised e, True, bl, [NewWLED, Connect 5])
              | Returns c \<Rightarrow>
                  (case inner_loop (cycles env) bl of
                     (r, bl1, t) \<Rightarrow>
                       (r, True, bl1, [NewWLED, Connect 5] @ settle verbose c @ t))))
      else (case inner_loop (cycles env) bl of (r, bl1, t) \<Rightarrow> (r, led, bl1, t)))"

text \<open>
  How the \<open>try\<close> statement goes on after its body and the handlers: an exception that a
  handler caught is over, one that no handler caught is still being raised.
\<close>

definition after_handlers :: "ending \<Rightarrow> ending" where
  "after_handlers r =
     (case r of
        Ended \<Rightarrow> Ended
      | Raised e \<Rightarrow> (if caught e then Ended else Raised e)
      | Running \<Rightarrow> Running)"

text \<open>
  The whole \<open>try\<close> statement: the body, the handlers of lines 98 to 101 when the body
  raised, and the \<open>finally\<close> block of lines 102 to 105, which runs on every way out of the
  body. An exception of \<open>led.close()\<close> is raised inside \<open>finally\<close>, where nothing catches
  it; it takes the place of an exception still being raised.
\<close>

definition attempt ::
  "bool \<Rightarrow> attempt_env \<Rightarrow> bool \<Rightarrow> baseline \<Rightarrow> ending \<times> bool \<times> baseline \<times> action list" where
  "attempt verbose env led bl =
     (case try_body verbose env led bl of
        (Running, led1, bl1, t) \<Rightarrow> (Running, led1, bl1, t)
      | (r, led1, bl1, t) \<Rightarrow>
          (let t1 = t @ (case r of Raised e \<Rightarrow> handler_log e | _ \<Rightarrow> []) in
           if led1 then
             (case close_raises env of
                Some e \<Rightarrow> (Raised e, True, bl1, t1 @ [Close])
              | None \<Rightarrow> (after_handlers r, False, bl1, t1 @ [Close]))
           else (after_handlers r, False, bl1, t1)))"

text \<open>The outer loop (lines 76 to 107), one \<open>attempt_env\<close> per pass.\<close>

fun outer_loop ::
  "bool \<Rightarrow> attempt_env list \<Rightarrow> bool \<Rightarrow> baseline \<Rightarrow> ending \<times> baseline \<times> action list" where
  "outer_loop verbose [] led bl = (Running, bl, [])"
| "outer_loop verbose (env # envs) led bl =
     (if \<not> is_running (at_top env) then (Ended, bl, [])
      else (case attempt verbose env led bl of
              (Ended, led1, bl1, t) \<Rightarrow>
                (case outer_loop verbose envs led1 bl1 of
                   (r, bl2, t1) \<Rightarrow> (r, bl2, t @ [Sleep 1] @ t1))
            | (r, led1, bl1, t) \<Rightarrow> (r, bl1, t)))"

definition set_led_settings :: "bool \<Rightarrow> attempt_env list \<Rightarrow> ending \<times> baseline \<times> action list" where
  "set_led_settings verbose envs = outer_loop verbose envs False no_baseline"

section \<open>Properties and scenarios\<close>


text \<open>The globals after a press of button 1, and after a press of button 0 that follows it.\<close>

definition preset_globals :: light_globals where
  "preset_globals = \<lparr>color_temp = 127, brightness = 255, on = True, is_running = True\<rparr>"

definition toggled_globals :: light_globals where
  "toggled_globals = fst (handle_event (\<lambda>x. x) False (ButtonEvent 0 1) preset_globals)"

text \<open>A pass of the inner loop during which the input loop writes nothing and no call raises.\<close>

definition quiet_cycle :: "light_globals \<Rightarrow> cycle_env" where
  "quiet_cycle g =
     \<lparr>at_check = g, master_raises = None, at_segment = g, segment_raises = None, at_record = g\<rparr>"

text \<open>
  A pass during which the input loop handles a press of button 0 while
  \<open>await led.master(...)\<close> is suspended.
\<close>

definition race_cycle :: cycle_env where
  "race_cycle =
     \<lparr>at_check = preset_globals, master_raises = None, at_segment = toggled_globals,
      segment_raises = None, at_record = toggled_globals\<rparr>"

text \<open>A pass in which \<open>led.segment\<close> raises after \<open>led.master\<close> has returned.\<close>

definition segment_fails_cycle :: "light_globals \<Rightarrow> cycle_env" where
  "segment_fails_cycle g =
     \<lparr>at_check = g, master_raises = None, at_segment = g,
      segment_raises = Some (OtherError ''reset''), at_record = g\<rparr>"

text \<open>
  A pass of the outer loop in which the connection attempt raises and \<open>led.close()\<close>
  returns, and the trace of such a pass.
\<close>

definition failed_connect :: "attempt_env \<Rightarrow> bool" where
  "failed_connect env \<longleftrightarrow>
     is_running (at_top env) \<and> new_raises env = None
     \<and> (case connecting env of ConnectRaises e \<Rightarrow> caught e | Returns c \<Rightarrow> False)
     \<and> close_raises env = None"

definition fail_trace :: "attempt_env \<Rightarrow> action list" where
  "fail_trace env =
     (case connecting env of
        ConnectRaises e \<Rightarrow> [NewWLED, Connect 5] @ handler_log e @ [Close, Sleep 1]
      | Returns c \<Rightarrow> [])"

definition timeout_attempt :: attempt_env where
  "timeout_attempt =
     \<lparr>at_top = preset_globals, still_connected = False, new_raises = None,
      connecting = ConnectRaises TimeoutError, cycles = [], close_raises = None\<rparr>"

definition refused_attempt :: attempt_env where
  "refused_attempt =
     \<lparr>at_top = preset_globals, still_connected = False, new_raises = None,
      connecting = ConnectRaises (OtherError ''refused''), cycles = [], close_raises = None\<rparr>"

definition close_fails_attempt :: attempt_env where
  "close_fails_attempt =
     \<lparr>at_top = preset_globals, still_connected = False, new_raises = None,
      connecting = ConnectRaises TimeoutError, cycles = [],
      close_raises = Some (OtherError ''close failed'')\<rparr>"

definition connected_attempt :: "light_globals \<Rightarrow> cycle_env list \<Rightarrow> attempt_env" where
  "connected_attempt g cs =
     \<lparr>at_top = g, still_connected = False, new_raises = None, connecting = Returns True,
      cycles = cs, close_raises = None\<rparr>"

text \<open>
  A pass in which the task is cancelled while \<open>led.master\<close> is awaited, as at the end of
  the process.
\<close>

definition cancelled_attempt :: attempt_env where
  "cancelled_attempt =
     connected_attempt preset_globals
       [\<lparr>at_check = preset_globals, master_raises = Some CancelledError,
         at_segment = preset_globals, segment_raises = None, at_record = preset_globals\<rparr>]"

text \<open>
  The fixture is reached and the preset state pushed; the light is switched off, and of
  that push \<open>led.master\<close> returns and \<open>led.segment\<close> raises; the light is switched on
  again while the loop waits; the fixture is reached again.
\<close>

definition outage_script :: "attempt_env list" where
  "outage_script =
     [connected_attempt preset_globals
        [quiet_cycle preset_globals, segment_fails_cycle toggled_globals],
      connected_attempt preset_globals
        [quiet_cycle preset_globals, quiet_cycle preset_globals]]"

section \<open>The input event loop: what one event does\<close>

lemma py_max_min_clamp: "lo \<le> hi \<Longrightarrow> py_max lo (py_min hi x) = spec_clamp x lo hi"
  by (simp add: py_max_def py_min_def spec_clamp_def)

lemma new_color_temp_clamp:
  "new_color_temp fl g z = spec_clamp (fl (color_temp g - fl (real_of_int z / 300))) 0 255"
  by (simp add: new_color_temp_def py_max_min_clamp)

lemma new_brightness_clamp:
  "new_brightness fl g x = spec_clamp (fl (brightness g - fl (real_of_int x / 300))) 1 255"
  by (simp add: new_brightness_def py_max_min_clamp)


lemma handle_event_is_running: "is_running (fst (handle_event fl verbose e g)) = is_running g"
  by (cases e) (simp_all add: motion_branch_def toggle_branch_def preset_branch_def Let_def)


lemma globals_after_Nil: "globals_after fl verbose [] g = g"
  by (simp add: globals_after_def)

lemma globals_after_Cons:
  "globals_after fl verbose (e # es) g =
     (if is_running g then globals_after fl verbose es (fst (handle_event fl verbose e g)) else g)"
  by (simp add: globals_after_def split: prod.splits)


lemma poll_loop_keeps_running:
  "is_running g \<Longrightarrow>
   \<not> fst (poll_loop fl verbose evs g) \<and> is_running (fst (snd (poll_loop fl verbose evs g)))"
proof (induction evs arbitrary: g)
  case Nil
  then show ?case by simp
next
  case (Cons e es)
  from Cons.prems have "is_running (fst (handle_event fl verbose e g))"
    by (simp add: handle_event_is_running)
  from Cons.IH [OF this] Cons.prems show ?case
    by (auto split: prod.splits)
qed

lemma toggled_globals_eq:
  "toggled_globals = \<lparr>color_temp = 127, brightness = 255, on = False, is_running = True\<rparr>"
  by (simp add: toggled_globals_def preset_globals_def toggle_branch_def preset_branch_def)




text \<open>
  The outer loop of \<open>set_led_settings\<close> does not end normally as long as each guard of line
  76 reads \<open>is_running\<close> as true.
\<close>

lemma outer_loop_not_ended:
  "list_all (\<lambda>env. is_running (at_top env)) envs \<Longrightarrow>
   outer_loop verbose envs led bl = (r, bl1, t) \<Longrightarrow> r \<noteq> Ended"
proof (induction envs arbitrary: led bl r bl1 t)
  case Nil
  then show ?case by auto
next
  case (Cons env envs)
  then show ?case
    by (fastforce split: prod.splits ending.splits)
qed

text \<open>
  C2. The run flag is true at process start, and no statement of the module assigns
  \<open>is_running\<close> after that: whatever \<open>spacenav.open()\<close> and \<open>spacenav.poll()\<close> answer, the
  flag is still true after every pass, and the input coroutine has not ended.
\<close>

theorem is_running_never_cleared:
  "\<not> fst (handle_spacenav_events fl verbose oks evs initial_globals)
   \<and> is_running (fst (snd (handle_spacenav_events fl verbose oks evs initial_globals)))"
proof -
  have r: "is_running initial_globals"
    by (simp add: initial_globals_def)
  from poll_loop_keeps_running [OF r, of fl verbose evs] r show ?thesis
    by (auto simp add: handle_spacenav_events_def split: prod.splits bool.splits)
qed

text \<open>
  C4. A motion event handled while \<open>on\<close> holds: the new color temperature is
  \<open>clamp(color_temp - rz / 300, 0, 255)\<close>, the new brightness is
  \<open>clamp(brightness - rx / 300, 1, 255)\<close>, both in the double arithmetic of the code
  (each operation rounded by \<open>fl\<close>); the two are stored (and, when \<open>verbose\<close>, logged) when
  one of them differs from the stored value, and otherwise the globals are left as they
  are and nothing is logged.
\<close>

theorem motion_event_while_on:
  assumes "on g"
  shows "handle_event fl verbose (MotionEvent x y z) g =
    (let c = spec_clamp (fl (color_temp g - fl (real_of_int z / 300))) 0 255;
         b = spec_clamp (fl (brightness g - fl (real_of_int x / 300))) 1 255
     in if c = color_temp g \<and> b = brightness g then (g, [])
        else (g\<lparr>color_temp := c, brightness := b\<rparr>, if verbose then [LogColor c b] else []))"
  using assms
  by (simp add: motion_branch_def new_color_temp_clamp new_brightness_clamp Let_def)

theorem motion_event_while_on_witness:
  "on preset_globals
   \<and> handle_event (\<lambda>x. x) True (MotionEvent 300 0 (- 600)) preset_globals
       = (\<lparr>color_temp = 129, brightness = 254, on = True, is_running = True\<rparr>,
          [LogColor 129 254])
   \<and> handle_event (\<lambda>x. x) True (MotionEvent (- 300) 0 (- 60000)) preset_globals
       = (\<lparr>color_temp = 255, brightness = 255, on = True, is_running = True\<rparr>,
          [LogColor 255 255])"
  using motion_event_while_on [of preset_globals "\<lambda>x. x" True 300 0 "- 600"]
    motion_event_while_on [of preset_globals "\<lambda>x. x" True "- 300" 0 "- 60000"]
  by (simp add: preset_globals_def spec_clamp_def)

text \<open>
  C5. A press of button 1 (\<open>button == 1\<close>, \<open>pressed == 1\<close>) leaves the light on with
  brightness 255 and color temperature 127, whatever the globals were before; the run
  flag is not touched.
\<close>

theorem button_1_press_presets:
  "fst (handle_event fl verbose (ButtonEvent 1 1) g)
     = \<lparr>color_temp = 127, brightness = 255, on = True, is_running = is_running g\<rparr>"
  by (simp add: toggle_branch_def preset_branch_def)

theorem button_1_press_presets_witness:
  "fst (handle_event (\<lambda>x. x) True (ButtonEvent 1 1) initial_globals) = preset_globals"
  using button_1_press_presets [of "\<lambda>x. x" True initial_globals]
  by (simp add: initial_globals_def preset_globals_def)

text \<open>
  C6. A press of button 0 negates \<open>on\<close> and changes nothing else; a second press gives back
  the globals the first one found.
\<close>

theorem button_0_press_toggles:
  "fst (handle_event fl verbose (ButtonEvent 0 1) g) = g\<lparr>on := \<not> on g\<rparr>
   \<and> fst (handle_event fl verbose (ButtonEvent 0 1)
           (fst (handle_event fl verbose (ButtonEvent 0 1) g))) = g"
  by (simp add: toggle_branch_def preset_branch_def)

theorem button_0_press_toggles_witness:
  "fst (handle_event (\<lambda>x. x) False (ButtonEvent 0 1) preset_globals)
     = \<lparr>color_temp = 127, brightness = 255, on = False, is_running = True\<rparr>
   \<and> fst (handle_event (\<lambda>x. x) False (ButtonEvent 0 1)
           (fst (handle_event (\<lambda>x. x) False (ButtonEvent 0 1) preset_globals)))
       = preset_globals"
  using button_0_press_toggles [of "\<lambda>x. x" False preset_globals]
  by (simp add: preset_globals_def toggle_branch_def preset_branch_def)

text \<open>
  C9. While \<open>on\<close> is false, the polling loop leaves the globals as they are over any
  sequence of motion events.
\<close>

theorem motion_ignored_while_off:
  assumes "\<not> on g"
  shows "globals_after fl verbose (map (\<lambda>(x, y, z). MotionEvent x y z) ms) g = g"
  using assms
  by (induction ms) (auto simp add: globals_after_Nil globals_after_Cons)

theorem motion_ignored_while_off_witness:
  "\<not> on initial_globals
   \<and> globals_after (\<lambda>x. x) True [MotionEvent 300 0 300, MotionEvent (- 7) 2 9000] initial_globals
       = initial_globals"
  using motion_ignored_while_off
    [of initial_globals "\<lambda>x. x" True "[(300, 0, 300), (- 7, 2, 9000)]"]
  by (simp add: initial_globals_def)

section \<open>The output sync loop: passes, errors and reconnection\<close>

lemma sync_cycle_quiet:
  "sync_cycle (quiet_cycle g) bl =
     (if differs g bl then (Inr (baseline_of g), [master_call g, segment_call g])
      else (Inr bl, []))"
  by (simp add: sync_cycle_def quiet_cycle_def)

lemma no_push_after_quiet_push: "\<not> differs g (baseline_of g)"
  by (simp add: differs_def baseline_of_def)

lemma differs_no_baseline: "differs g no_baseline"
  by (simp add: differs_def no_baseline_def)

lemma try_body_led:
  "try_body verbose env False bl = (r, led1, bl1, t) \<Longrightarrow> led1 = (new_raises env = None)"
  by (auto simp add: try_body_def split: option.splits connect_result.splits prod.splits)

lemma attempt_failed_connect:
  "failed_connect env \<Longrightarrow>
   attempt verbose env False bl = (Ended, False, bl, butlast (fail_trace env))"
  by (auto simp add: failed_connect_def attempt_def try_body_def fail_trace_def
      after_handlers_def butlast_append split: connect_result.splits)

lemma failed_connects_keep_baseline:
  "list_all failed_connect fs \<Longrightarrow>
   outer_loop verbose (fs @ rest) False bl =
     (case outer_loop verbose rest False bl of
        (r, bl1, t) \<Rightarrow> (r, bl1, concat (map fail_trace fs) @ t))"
proof (induction fs)
  case Nil
  then show ?case by simp
next
  case (Cons f fs)
  then have f: "failed_connect f" and fs: "list_all failed_connect fs"
    by simp_all
  from f have run: "is_running (at_top f)"
    by (simp add: failed_connect_def)
  from f have tr: "butlast (fail_trace f) @ [Sleep 1] = fail_trace f"
    by (auto simp add: failed_connect_def fail_trace_def butlast_append
        split: connect_result.splits)
  show ?case
    using Cons.IH [OF fs] run tr
    by (simp add: attempt_failed_connect [OF f] split: prod.splits)
qed

text \<open>
  C3. The comparison of line 88 decides the pass: with no difference nothing is sent and
  the baseline stays; with a difference, and with the globals unchanged during the pass
  and both calls returning, master and segment are sent and the baseline is the state
  sent (\<open>sync_cycle_quiet\<close>, \<open>no_push_after_quiet_push\<close>). The baseline is read from the
  globals after the two awaited calls, though. Here the light is on when line 88 compares
  and \<open>led.master\<close> is called, and the input loop handles a press of button 0 while that
  call is awaited: the fixture is told \<open>on=True\<close>, the baseline records \<open>on=False\<close>, and the
  next pass finds no difference and sends nothing.
\<close>

theorem baseline_differs_from_pushed:
  "sync_cycle race_cycle no_baseline =
     (Inr \<lparr>last_color_temp = Some 127, last_brightness = Some 255, last_on = Some False\<rparr>,
      [Master True 255, Segment 0 255 127])
   \<and> sync_cycle (quiet_cycle toggled_globals)
        \<lparr>last_color_temp = Some 127, last_brightness = Some 255, last_on = Some False\<rparr>
      = (Inr \<lparr>last_color_temp = Some 127, last_brightness = Some 255, last_on = Some False\<rparr>,
         [])"
  by (simp add: sync_cycle_def race_cycle_def quiet_cycle_def no_baseline_def differs_def
      toggled_globals_eq preset_globals_def master_call_def segment_call_def py_int_def
      baseline_of_def)

text \<open>
  A pass of the outer loop whose \<open>try\<close> body has ended normally or by an exception that a
  handler catches (raised by the constructor, by the connection attempt with its timeout
  of 5, or by a fixture call), and whose \<open>led.close()\<close> returns: the exception is logged,
  the client is closed exactly when the constructor had returned one, and after a pause
  of 1 the loop goes on with the next pass, \<open>led\<close> being \<open>None\<close> again.
\<close>

lemma caught_error_is_closed_and_retried:
  assumes "is_running (at_top env)" and "close_raises env = None"
      and "try_body verbose env False bl = (r, led1, bl1, t)"
      and "after_handlers r = Ended"
  shows "outer_loop verbose (env # envs) False bl =
          (case outer_loop verbose envs False bl1 of
             (r2, bl2, t2) \<Rightarrow>
               (r2, bl2,
                t @ (case r of Raised e \<Rightarrow> handler_log e | _ \<Rightarrow> [])
                @ (if led1 then [Close] else []) @ [Sleep 1] @ t2))
         \<and> led1 = (new_raises env = None)"
  using assms try_body_led [OF assms(3)]
  by (cases r) (auto simp add: attempt_def Let_def after_handlers_def split: prod.splits)

text \<open>
  A cancellation passes both handlers unlogged; the \<open>finally\<close> block closes the client and
  the coroutine ends with the exception.
\<close>

lemma cancellation_ends_the_loop:
  "set_led_settings False [cancelled_attempt, timeout_attempt]
     = (Raised CancelledError, no_baseline,
        [NewWLED, Connect 5, Sleep (1 / 2), Master True 255, Close])"
  by (simp add: set_led_settings_def cancelled_attempt_def connected_attempt_def attempt_def
      try_body_def settle_def sync_cycle_def differs_def no_baseline_def preset_globals_def
      master_call_def handler_log_def after_handlers_def caught_def)

text \<open>
  C7. A connect timeout and a refused connection are logged, the client is closed, and
  after a pause of 1 the next pass is made. When \<open>led.close()\<close> raises in the \<open>finally\<close>
  block after the same connect timeout, the exception leaves the loop: the coroutine ends
  with it, and the pass that would follow is not made.
\<close>

theorem close_error_ends_the_loop:
  "set_led_settings False [timeout_attempt, refused_attempt]
     = (Running, no_baseline,
        [NewWLED, Connect 5, Log LogTimedOut, Close, Sleep 1,
         NewWLED, Connect 5, Log (LogError ''refused''), Close, Sleep 1])
   \<and> set_led_settings False [close_fails_attempt, timeout_attempt]
     = (Raised (OtherError ''close failed''), no_baseline,
        [NewWLED, Connect 5, Log LogTimedOut, Close])"
  by (simp add: set_led_settings_def attempt_def try_body_def close_fails_attempt_def
      timeout_attempt_def refused_attempt_def preset_globals_def handler_log_def
      after_handlers_def caught_def)

text \<open>
  After any number of passes in which the connection attempt raised an exception that is
  caught, in the pass that connects the first pass of the inner loop sends the current
  state (master and segment) exactly when that state differs from the baseline, and the
  baseline is the one from before the failed attempts. With no baseline yet the state
  differs always (\<open>differs_no_baseline\<close>).
\<close>

lemma push_on_reconnect_iff_differs:
  assumes "list_all failed_connect fs"
      and "is_running (at_top env)" and "new_raises env = None"
      and "connecting env = Returns c" and "cycles env = [cyc]"
      and "is_running (at_check cyc)"
      and "master_raises cyc = None" and "segment_raises cyc = None"
  shows "outer_loop verbose (fs @ [env]) False bl =
           (Running,
            (if differs (at_check cyc) bl then baseline_of (at_record cyc) else bl),
            concat (map fail_trace fs) @ [NewWLED, Connect 5] @ settle verbose c
            @ (if differs (at_check cyc) bl
               then [master_call (at_check cyc), segment_call (at_segment cyc)] else [])
            @ [Sleep (1 / 100)])"
proof -
  have "outer_loop verbose [env] False bl =
           (Running,
            (if differs (at_check cyc) bl then baseline_of (at_record cyc) else bl),
            [NewWLED, Connect 5] @ settle verbose c
            @ (if differs (at_check cyc) bl
               then [master_call (at_check cyc), segment_call (at_segment cyc)] else [])
            @ [Sleep (1 / 100)])"
    using assms(2-)
    by (simp add: attempt_def try_body_def sync_cycle_def)
  then show ?thesis
    by (simp add: failed_connects_keep_baseline [OF assms(1)])
qed

text \<open>
  C8. The preset state is pushed; the light is switched off, and of that push
  \<open>led.master\<close> returns and \<open>led.segment\<close> raises, so the baseline stays at the preset
  state; the light is switched on again during the pause of 1. After the reconnection the
  state equals the baseline and nothing is sent, in that pass or in a later one with the
  state unchanged, though the last master call told the fixture \<open>on=False\<close>.
\<close>

theorem no_push_on_reconnect:
  "set_led_settings False outage_script
     = (Running, baseline_of preset_globals,
        [NewWLED, Connect 5, Sleep (1 / 2), Master True 255, Segment 0 255 127,
         Sleep (1 / 100),
         Master False 255, Segment 0 255 127, Log (LogError ''reset''), Close, Sleep 1,
         NewWLED, Connect 5, Sleep (1 / 2), Sleep (1 / 100), Sleep (1 / 100)])"
  by (simp add: set_led_settings_def outage_script_def connected_attempt_def attempt_def
      try_body_def settle_def sync_cycle_def quiet_cycle_def segment_fails_cycle_def
      differs_def no_baseline_def baseline_of_def toggled_globals_eq preset_globals_def
      master_call_def segment_call_def py_int_def handler_log_def after_handlers_def
      caught_def)

text \<open>
  C10. The calls of one pass of the inner loop: none when nothing differs; otherwise the
  master call with the \<open>on\<close> flag and the brightness 255, whatever the brightness of the
  state, followed, when the master call returned, by the call for segment 0 with the
  brightness and the color temperature of the state truncated by \<open>int()\<close>.
\<close>

theorem calls_of_a_cycle:
  "snd (sync_cycle env bl) =
     (if differs (at_check env) bl
      then Master (on (at_check env)) 255
           # (if master_raises env = None
              then [Segment 0 (py_int (brightness (at_segment env)))
                      (py_int (color_temp (at_segment env)))]
              else [])
      else [])"
  by (simp add: sync_cycle_def master_call_def segment_call_def split: option.splits)

theorem calls_of_a_cycle_witness:
  "snd (sync_cycle
          (quiet_cycle \<lparr>color_temp = 201 / 2, brightness = 171 / 4, on = True, is_running = True\<rparr>)
          no_baseline)
     = [Master True 255, Segment 0 42 100]"
  using calls_of_a_cycle
    [of "quiet_cycle \<lparr>color_temp = 201 / 2, brightness = 171 / 4, on = True, is_running = True\<rparr>"
       no_baseline]
  by (simp add: quiet_cycle_def no_baseline_def differs_def py_int_def)

end
